theory Spec2Isabelle
  imports Complex_Main "HOL-Library.Log_Nat"
begin

section \<open>JavaScript values\<close>

text \<open>
  The program is a Node.js script. A JavaScript number is an IEEE 754 binary64 value:
  a NaN, one of the two infinities, or a finite value, which is a rational number. The
  model keeps the exact value of a finite number, so its finite numbers include those of
  the program; the two zeros are not told apart (no operation of the program does).
  Every comparison of the source is a comparison of such values, so it is exact on the
  model.
\<close>

datatype jsnum = NaN | NegInf | Fin rat | PosInf

text \<open>
  The values a decoded JSON document and the program's own expressions hold. Arrays and
  objects are opaque references: the program only applies \<open>typeof\<close> and \<open>===\<close> to
  the fields it reads. A property that is missing reads as \<open>Undefined\<close>. A string is
  the list of its code units (those below 256).
\<close>

datatype jsval = Undefined | Null | Bool bool | Num jsnum | Str string | Obj nat

fun jstypeof :: "jsval \<Rightarrow> string" where
  "jstypeof Undefined = ''undefined''"
| "jstypeof Null = ''object''"
| "jstypeof (Bool b) = ''boolean''"
| "jstypeof (Num n) = ''number''"
| "jstypeof (Str s) = ''string''"
| "jstypeof (Obj r) = ''object''"

text \<open>Truthiness (\<open>while (hasNext)\<close>, \<open>retryAfter ? .. : ..\<close>).\<close>

fun truthy :: "jsval \<Rightarrow> bool" where
  "truthy Undefined = False"
| "truthy Null = False"
| "truthy (Bool b) = b"
| "truthy (Num n) = (n \<noteq> NaN \<and> n \<noteq> Fin 0)"
| "truthy (Str s) = (s \<noteq> [])"
| "truthy (Obj r) = True"

subsection \<open>Relational operators on numbers\<close>

text \<open>
  \<open>a < b\<close> on numbers: false as soon as an operand is NaN. \<open>a <= b\<close> is evaluated by
  the language as "not \<open>b < a\<close>, and neither is NaN", \<open>a >= b\<close> as "not \<open>a < b\<close>, and
  neither is NaN".
\<close>

fun js_lt :: "jsnum \<Rightarrow> jsnum \<Rightarrow> bool" where
  "js_lt NaN b = False"
| "js_lt a NaN = False"
| "js_lt PosInf b = False"
| "js_lt a NegInf = False"
| "js_lt NegInf b = True"
| "js_lt a PosInf = True"
| "js_lt (Fin a) (Fin b) = (a < b)"

definition js_le :: "jsnum \<Rightarrow> jsnum \<Rightarrow> bool" where
  "js_le a b = (a \<noteq> NaN \<and> b \<noteq> NaN \<and> \<not> js_lt b a)"

definition js_ge :: "jsnum \<Rightarrow> jsnum \<Rightarrow> bool" where
  "js_ge a b = (a \<noteq> NaN \<and> b \<noteq> NaN \<and> \<not> js_lt a b)"

definition js_gt :: "jsnum \<Rightarrow> jsnum \<Rightarrow> bool" where
  "js_gt a b = js_lt b a"

text \<open>
  An operand that is \<open>undefined\<close> (here \<open>None\<close>: an array element that does not
  exist) is converted to NaN before it is compared.
\<close>

fun to_num :: "jsnum option \<Rightarrow> jsnum" where
  "to_num None = NaN"
| "to_num (Some n) = n"

subsection \<open>Rounding to binary64\<close>

text \<open>
  A decimal literal of the source (\<open>99.6\<close>) and the result of \<open>Number(string)\<close> are
  the binary64 value nearest to the decimal value written, ties to the even significand,
  with overflow to an infinity and gradual underflow.
\<close>

definition pow2 :: "int \<Rightarrow> rat" where
  "pow2 k = (if 0 \<le> k then 2 ^ nat k else 1 / 2 ^ nat (- k))"

text \<open>\<open>ilog2 a\<close> is the integer \<open>e\<close> with \<open>2 ^ e \<le> a < 2 ^ (e + 1)\<close>, for \<open>a > 0\<close>.\<close>

definition ilog2 :: "rat \<Rightarrow> int" where
  "ilog2 a = (if 1 \<le> a then int (floorlog 2 (nat \<lfloor>a\<rfloor>)) - 1
              else - int (floorlog 2 (nat \<lceil>1 / a\<rceil> - 1)))"

definition round_half_even :: "rat \<Rightarrow> int" where
  "round_half_even q =
     (let f = \<lfloor>q\<rfloor>; d = q - of_int f
      in if d < 1 / 2 then f else if 1 / 2 < d then f + 1 else if even f then f else f + 1)"

definition binary64 :: "rat \<Rightarrow> jsnum" where
  "binary64 q =
     (if q = 0 then Fin 0
      else let a = \<bar>q\<bar>;
               e = max (ilog2 a) (- 1022);
               m = round_half_even (a / pow2 (e - 52))
           in if 1024 \<le> e \<or> (e = 1023 \<and> 2 ^ 53 \<le> m)
              then (if q < 0 then NegInf else PosInf)
              else Fin (sgn q * (of_int m * pow2 (e - 52))))"

subsection \<open>\<open>Number(string)\<close> and \<open>String.prototype.split\<close>\<close>

text \<open>
  \<open>Number\<close> applied to a string: white space is trimmed at both ends; the empty string
  is 0; \<open>Infinity\<close> with an optional sign; a hexadecimal, octal or binary integer
  (\<open>0x\<close>, \<open>0o\<close>, \<open>0b\<close>, no sign); a decimal literal with an optional sign, fraction
  and exponent; anything else is NaN.
\<close>

definition is_ws :: "char \<Rightarrow> bool" where
  "is_ws c = (of_char c \<in> {9, 10, 11, 12, 13, 32, 160 :: nat})"

definition trim_ws :: "string \<Rightarrow> string" where
  "trim_ws s = rev (dropWhile is_ws (rev (dropWhile is_ws s)))"

definition digit_of :: "nat \<Rightarrow> char \<Rightarrow> nat option" where
  "digit_of b c =
     (let n = of_char c :: nat;
          d = (if 48 \<le> n \<and> n \<le> 57 then Some (n - 48)
               else if 97 \<le> n \<and> n \<le> 102 then Some (n - 87)
               else if 65 \<le> n \<and> n \<le> 70 then Some (n - 55)
               else None)
      in case d of None \<Rightarrow> None | Some v \<Rightarrow> if v < b then Some v else None)"

fun radix_value :: "nat \<Rightarrow> nat \<Rightarrow> string \<Rightarrow> nat option" where
  "radix_value b acc [] = Some acc"
| "radix_value b acc (c # cs) =
     (case digit_of b c of None \<Rightarrow> None | Some d \<Rightarrow> radix_value b (acc * b + d) cs)"

text \<open>The value of a non-empty string of digits of base \<open>b\<close>.\<close>

definition digits_value :: "nat \<Rightarrow> string \<Rightarrow> nat option" where
  "digits_value b s = (if s = [] then None else radix_value b 0 s)"

definition is_dec :: "char \<Rightarrow> bool" where
  "is_dec c = (digit_of 10 c \<noteq> None)"

definition signed_int :: "string \<Rightarrow> int option" where
  "signed_int s =
     (case s of
        [] \<Rightarrow> None
      | c # r \<Rightarrow>
          if c = CHR ''+'' then map_option int (digits_value 10 r)
          else if c = CHR ''-'' then map_option (\<lambda>n. - int n) (digits_value 10 r)
          else map_option int (digits_value 10 s))"

definition scale10 :: "rat \<Rightarrow> int \<Rightarrow> rat" where
  "scale10 q e = (if 0 \<le> e then q * 10 ^ nat e else q / 10 ^ nat (- e))"

text \<open>The value of a string of decimal digits; 0 for the empty string.\<close>

definition dec_value :: "string \<Rightarrow> nat" where
  "dec_value s = (case radix_value 10 0 s of None \<Rightarrow> 0 | Some n \<Rightarrow> n)"

definition unsigned_decimal :: "string \<Rightarrow> rat option" where
  "unsigned_decimal s =
     (let ip = takeWhile is_dec s;
          r1 = dropWhile is_dec s;
          dot = (case r1 of [] \<Rightarrow> False | c # r \<Rightarrow> c = CHR ''.'');
          fp = (if dot then takeWhile is_dec (drop 1 r1) else []);
          r2 = (if dot then dropWhile is_dec (drop 1 r1) else r1);
          ex = (case r2 of
                  [] \<Rightarrow> Some 0
                | c # r \<Rightarrow> if c = CHR ''e'' \<or> c = CHR ''E'' then signed_int r else None)
      in if ip = [] \<and> fp = [] then None
         else case ex of
                None \<Rightarrow> None
              | Some e \<Rightarrow>
                  Some (scale10 (of_nat (dec_value ip) + of_nat (dec_value fp) / 10 ^ length fp) e))"

definition prefixed :: "string \<Rightarrow> (nat \<times> string) option" where
  "prefixed t =
     (case t of
        z # x # r \<Rightarrow>
          if z \<noteq> CHR ''0'' then None
          else if x = CHR ''x'' \<or> x = CHR ''X'' then Some (16, r)
          else if x = CHR ''o'' \<or> x = CHR ''O'' then Some (8, r)
          else if x = CHR ''b'' \<or> x = CHR ''B'' then Some (2, r)
          else None
      | _ \<Rightarrow> None)"

definition Number :: "string \<Rightarrow> jsnum" where
  "Number s =
     (let t = trim_ws s
      in if t = [] then Fin 0
         else case prefixed t of
                Some (b, r) \<Rightarrow>
                  (case digits_value b r of None \<Rightarrow> NaN | Some n \<Rightarrow> binary64 (of_nat n))
              | None \<Rightarrow>
                  (let neg = (take 1 t = ''-'');
                       u = (if take 1 t = ''+'' \<or> take 1 t = ''-'' then drop 1 t else t)
                   in if u = ''Infinity'' then (if neg then NegInf else PosInf)
                      else case unsigned_decimal u of
                             None \<Rightarrow> NaN
                           | Some q \<Rightarrow> binary64 (if neg then - q else q)))"

text \<open>\<open>s.split(c)\<close> for a one-character separator: always at least one piece.\<close>

fun split_acc :: "char \<Rightarrow> string \<Rightarrow> string \<Rightarrow> string list" where
  "split_acc c cur [] = [rev cur]"
| "split_acc c cur (x # xs) =
     (if x = c then rev cur # split_acc c [] xs else split_acc c (x # cur) xs)"

definition split :: "string \<Rightarrow> char \<Rightarrow> string list" where
  "split s c = split_acc c [] s"

text \<open>\<open>const [a, b] = xs\<close>: an element that does not exist is \<open>undefined\<close>.\<close>

fun element :: "'a list \<Rightarrow> nat \<Rightarrow> 'a option" where
  "element [] i = None"
| "element (x # xs) 0 = Some x"
| "element (x # xs) (Suc i) = element xs i"

section \<open>Utility helpers (index.js)\<close>

definition isInvalid :: "jsval \<Rightarrow> bool" where
  "isInvalid v = (v = Null \<or> v = Undefined \<or> v = Str [])"

text \<open>
  The object \<open>{ sys, dia }\<close>; \<open>None\<close> in a field is \<open>undefined\<close>. The result
  \<open>null\<close> of \<open>parseBP\<close> is \<open>None\<close>. \<open>Number.isNaN\<close> is true of the number NaN
  only, not of \<open>undefined\<close>.
\<close>

record bp_parsed =
  sys :: "jsnum option"
  dia :: "jsnum option"

definition Number_isNaN :: "jsnum option \<Rightarrow> bool" where
  "Number_isNaN v = (v = Some NaN)"

definition parseBP :: "jsval \<Rightarrow> bp_parsed option" where
  "parseBP bp =
     (case bp of
        Str s \<Rightarrow>
          if isInvalid bp \<or> jstypeof bp \<noteq> ''string'' then None
          else let parts = map Number (split s CHR ''/'');
                   sys = element parts 0;
                   dia = element parts 1
               in if Number_isNaN sys \<or> Number_isNaN dia then None
                  else Some \<lparr>sys = sys, dia = dia\<rparr>
      | _ \<Rightarrow> None)"

section \<open>Risk scoring (index.js)\<close>

text \<open>
  A scorer returns \<open>{ score }\<close> or \<open>{ score, invalid: true }\<close>; the field \<open>invalid\<close>
  is only read as a condition, where the missing field is false.
\<close>

record score_result =
  score :: nat
  invalid :: bool

definition bpScore :: "jsval \<Rightarrow> score_result" where
  "bpScore bp =
     (case parseBP bp of
        None \<Rightarrow> \<lparr>score = 0, invalid = True\<rparr>
      | Some parsed \<Rightarrow>
          let s = to_num (sys parsed); d = to_num (dia parsed)
          in if js_lt s (Fin 120) \<and> js_lt d (Fin 80) then \<lparr>score = 0, invalid = False\<rparr>
             else if js_ge s (Fin 120) \<and> js_le s (Fin 129) \<and> js_lt d (Fin 80)
               then \<lparr>score = 1, invalid = False\<rparr>
             else if (js_ge s (Fin 130) \<and> js_le s (Fin 139)) \<or> (js_ge d (Fin 80) \<and> js_le d (Fin 89))
               then \<lparr>score = 2, invalid = False\<rparr>
             else if js_ge s (Fin 140) \<or> js_ge d (Fin 90) then \<lparr>score = 3, invalid = False\<rparr>
             else \<lparr>score = 0, invalid = False\<rparr>)"

definition tempScore :: "jsval \<Rightarrow> score_result" where
  "tempScore temp =
     (case temp of
        Num t \<Rightarrow>
          if isInvalid temp \<or> jstypeof temp \<noteq> ''number'' then \<lparr>score = 0, invalid = True\<rparr>
          else if js_le t (binary64 (995 / 10)) then \<lparr>score = 0, invalid = False\<rparr>
          else if js_ge t (binary64 (996 / 10)) \<and> js_le t (binary64 (1009 / 10))
            then \<lparr>score = 1, invalid = False\<rparr>
          else if js_ge t (Fin 101) then \<lparr>score = 2, invalid = False\<rparr>
          else \<lparr>score = 0, invalid = False\<rparr>
      | _ \<Rightarrow> \<lparr>score = 0, invalid = True\<rparr>)"

definition ageScore :: "jsval \<Rightarrow> score_result" where
  "ageScore age =
     (case age of
        Num a \<Rightarrow>
          if isInvalid age \<or> jstypeof age \<noteq> ''number'' then \<lparr>score = 0, invalid = True\<rparr>
          else if js_lt a (Fin 40) then \<lparr>score = 0, invalid = False\<rparr>
          else if js_ge a (Fin 40) \<and> js_le a (Fin 65) then \<lparr>score = 1, invalid = False\<rparr>
          else if js_gt a (Fin 65) then \<lparr>score = 2, invalid = False\<rparr>
          else \<lparr>score = 0, invalid = False\<rparr>
      | _ \<Rightarrow> \<lparr>score = 0, invalid = True\<rparr>)"

section \<open>Main processing (index.js)\<close>

text \<open>
  A patient record is an object; a field it does not have reads as \<open>Undefined\<close>. An
  element of \<open>data\<close> that is \<open>null\<close> is \<open>None\<close>: reading a property of it throws a
  TypeError.
\<close>

record patient =
  patient_id :: jsval
  blood_pressure :: jsval
  temperature :: jsval
  age :: jsval

text \<open>
  The errors a call can end with: the rejection of \<open>fetch\<close> itself;
  \<open>Non-retryable error: s\<close>; \<open>Failed after r retries (status s)\<close>;
  \<open>Patient API error (page p): s\<close>; a body that cannot be decoded or destructured;
  and the TypeError of reading a property of \<open>null\<close>.
\<close>

datatype error =
    NetworkError
  | NonRetryable nat
  | RetriesExhausted nat nat
  | PatientApiError nat nat
  | BodyError
  | TypeError

text \<open>
  The decoded body of a response: \<open>Envelope data total hasNext\<close> for
  \<open>{ data, pagination: { total, hasNext } }\<close> with an iterable \<open>data\<close>, and \<open>Malformed\<close>
  for every body on which \<open>res.json()\<close>, the destructuring, \<open>pagination.total\<close>,
  \<open>data.length\<close> or the iteration of \<open>data\<close> throws.
\<close>

datatype page_body = Malformed | Envelope "patient option list" jsval jsval

record response =
  status :: nat
  retry_after :: "string option"
  body :: page_body

definition ok :: "response \<Rightarrow> bool" where
  "ok res = (200 \<le> status res \<and> status res \<le> 299)"

text \<open>A call of \<open>fetch\<close> either rejects (a network error) or resolves to a response.\<close>

datatype outcome = Rejected | Resp response

text \<open>The three lists of the payload, and the variables of \<open>run\<close>.\<close>

record report =
  high_risk_patients :: "jsval list"
  fever_patients :: "jsval list"
  data_quality_issues :: "jsval list"

record run_state = report +
  page :: nat
  processedCount :: nat
  totalExpected :: jsval
  hasNext :: jsval

text \<open>The body of \<open>for (const p of data)\<close>, for an element that is not \<open>null\<close>.\<close>

definition process_patient :: "patient \<Rightarrow> run_state \<Rightarrow> run_state" where
  "process_patient p st =
     (let bp = bpScore (blood_pressure p);
          temp = tempScore (temperature p);
          ag = ageScore (age p);
          totalRisk = 0 + (score bp + score temp + score ag);
          st1 = (if invalid bp \<or> invalid temp \<or> invalid ag
                 then st\<lparr>data_quality_issues := data_quality_issues st @ [patient_id p]\<rparr>
                 else st);
          st2 = (if jstypeof (temperature p) = ''number''
                    \<and> (case temperature p of Num t \<Rightarrow> js_ge t (binary64 (996 / 10)) | _ \<Rightarrow> False)
                 then st1\<lparr>fever_patients := fever_patients st1 @ [patient_id p]\<rparr>
                 else st1);
          st3 = (if 4 \<le> totalRisk
                 then st2\<lparr>high_risk_patients := high_risk_patients st2 @ [patient_id p]\<rparr>
                 else st2)
      in st3\<lparr>processedCount := processedCount st3 + 1\<rparr>)"

fun process_data :: "patient option list \<Rightarrow> run_state \<Rightarrow> error + run_state" where
  "process_data [] st = Inr st"
| "process_data (None # ps) st = Inl TypeError"
| "process_data (Some p # ps) st = process_data ps (process_patient p st)"

text \<open>
  The loop \<open>while (hasNext)\<close>. \<open>srv n\<close> is what \<open>fetch\<close> gives for the URL of page
  \<open>n\<close>. The loop has no bound on the number of pages: it is a partial function, and
  \<open>None\<close> is the run that never leaves the loop.
\<close>

partial_function (option) run_loop :: "(nat \<Rightarrow> outcome) \<Rightarrow> run_state \<Rightarrow> (error + run_state) option" where
  "run_loop srv st =
     (if truthy (hasNext st) then
        (case srv (page st) of
           Rejected \<Rightarrow> Some (Inl NetworkError)
         | Resp res \<Rightarrow>
             if \<not> ok res then Some (Inl (PatientApiError (page st) (status res)))
             else (case body res of
                     Malformed \<Rightarrow> Some (Inl BodyError)
                   | Envelope data tot hn \<Rightarrow>
                       (case process_data data
                               (if totalExpected st = Null then st\<lparr>totalExpected := tot\<rparr> else st) of
                          Inl e \<Rightarrow> Some (Inl e)
                        | Inr st' \<Rightarrow> run_loop srv (st'\<lparr>hasNext := hn, page := page st' + 1\<rparr>))))
      else Some (Inr st))"

definition initial_state :: run_state where
  "initial_state =
     \<lparr>high_risk_patients = [], fever_patients = [], data_quality_issues = [],
      page = 1, processedCount = 0, totalExpected = Null, hasNext = Bool True\<rparr>"

text \<open>
  What a run that returns has printed: the warning, if any, with the two values it
  shows (\<open>processed\<close>, \<open>expected\<close>), and the payload.
\<close>

record run_output =
  warning :: "(nat \<times> jsval) option"
  payload :: report

definition finish :: "run_state \<Rightarrow> run_output" where
  "finish st =
     \<lparr>warning = (if Num (Fin (of_nat (processedCount st))) \<noteq> totalExpected st
                 then Some (processedCount st, totalExpected st) else None),
      payload = \<lparr>high_risk_patients = high_risk_patients st,
                 fever_patients = fever_patients st,
                 data_quality_issues = data_quality_issues st\<rparr>\<rparr>"

definition run :: "(nat \<Rightarrow> outcome) \<Rightarrow> (error + run_output) option" where
  "run srv =
     (case run_loop srv initial_state of
        None \<Rightarrow> None
      | Some (Inl e) \<Rightarrow> Some (Inl e)
      | Some (Inr st) \<Rightarrow> Some (Inr (finish st)))"

section \<open>The retrying fetch\<close>

text \<open>
  The third file of the repository (part 001 of src/unnamed) is \<open>index.js\<close> with
  \<open>fetch\<close> replaced, in \<open>run\<close>, by the function below; its helpers, scorers and
  loop are those above.

  \<open>fetchWithRetry(url, options, retries = 5, attempt = 1)\<close>. \<open>net k\<close> is what the
  \<open>k\<close>-th call of \<open>fetch\<close> gives (counted from 0); the world counts the calls made and
  records each \<open>sleep\<close>. A delay is kept as the source computes it, the random jitter
  left symbolic: \<open>Hinted n\<close> is \<open>n * 1000 + jitter\<close> for the number \<open>n\<close> of the
  \<open>retry-after\<close> header, \<open>Backoff b\<close> is \<open>b + jitter\<close>, and \<open>BackoffPlain b\<close> is the
  delay \<open>b\<close> of the \<open>catch\<close> block.
\<close>

datatype delay = Hinted jsnum | Backoff nat | BackoffPlain nat

record world =
  requests :: nat
  sleeps :: "delay list"

text \<open>\<open>Math.min(1000 * 2 ** (attempt - 1), 10000)\<close>\<close>

definition backoff :: "nat \<Rightarrow> nat" where
  "backoff attempt = (if attempt = 0 then 500 else min (1000 * 2 ^ (attempt - 1)) 10000)"

text \<open>
  One pass through the body of the function, up to its recursive call: \<open>Done r\<close> when
  the call settles with \<open>r\<close>, \<open>Again d\<close> when it sleeps for \<open>d\<close> and calls itself with
  \<open>attempt + 1\<close>. Every \<open>throw\<close> of the \<open>try\<close> block, like a rejection of \<open>fetch\<close>,
  lands in the \<open>catch\<close> block, which is \<open>thrown\<close> here.
\<close>

datatype attempt_result = Done "error + response" | Again delay

definition thrown :: "nat \<Rightarrow> nat \<Rightarrow> error \<Rightarrow> attempt_result" where
  "thrown retries attempt err =
     (if attempt \<le> retries then Again (BackoffPlain (backoff attempt)) else Done (Inl err))"

definition attempt_once :: "outcome \<Rightarrow> nat \<Rightarrow> nat \<Rightarrow> attempt_result" where
  "attempt_once out retries attempt =
     (case out of
        Rejected \<Rightarrow> thrown retries attempt NetworkError
      | Resp res \<Rightarrow>
          if ok res then Done (Inr res)
          else if status res \<in> set [429, 500, 502, 503] then
            (if retries < attempt
             then thrown retries attempt (RetriesExhausted retries (status res))
             else Again (case retry_after res of
                           None \<Rightarrow> Backoff (backoff attempt)
                         | Some h \<Rightarrow> if h \<noteq> [] then Hinted (Number h)
                                     else Backoff (backoff attempt)))
          else thrown retries attempt (NonRetryable (status res)))"

lemma attempt_once_Again: "attempt_once out retries attempt = Again d \<Longrightarrow> attempt \<le> retries"
  by (auto simp: attempt_once_def thrown_def split: outcome.splits if_splits)

function fetchWithRetry ::
  "(nat \<Rightarrow> outcome) \<Rightarrow> nat \<Rightarrow> nat \<Rightarrow> world \<Rightarrow> (error + response) \<times> world" where
  "fetchWithRetry net retries attempt w =
     (case attempt_once (net (requests w)) retries attempt of
        Done r \<Rightarrow> (r, w\<lparr>requests := requests w + 1\<rparr>)
      | Again d \<Rightarrow>
          fetchWithRetry net retries (attempt + 1)
            (w\<lparr>requests := requests w + 1, sleeps := sleeps w @ [d]\<rparr>))"
  by pat_completeness auto
termination
  by (relation "measure (\<lambda>(net, retries, attempt, w). retries + 1 - attempt)")
     (auto dest: attempt_once_Again)

declare fetchWithRetry.simps [simp del]

section \<open>The variant in part 000 of src/unnamed\<close>

text \<open>
  The repository holds the script in three variants. \<open>index.js\<close> and part 001 of
  src/unnamed share the helpers, the scorers and the loop modelled above, word for word.
  Part 000 of src/unnamed has the same \<open>isInvalid\<close>, \<open>parseBP\<close> and \<open>tempScore\<close>;
  its \<open>bpScore\<close> and \<open>ageScore\<close> return other scores, and the loop of its \<open>run\<close>
  tests the temperature without \<open>typeof\<close>. Its functions carry the suffix \<open>000\<close>.
\<close>

definition bpScore_000 :: "jsval \<Rightarrow> score_result" where
  "bpScore_000 bp =
     (case parseBP bp of
        None \<Rightarrow> \<lparr>score = 0, invalid = True\<rparr>
      | Some parsed \<Rightarrow>
          let s = to_num (sys parsed); d = to_num (dia parsed)
          in if js_lt s (Fin 120) \<and> js_lt d (Fin 80) then \<lparr>score = 1, invalid = False\<rparr>
             else if js_ge s (Fin 120) \<and> js_le s (Fin 129) \<and> js_lt d (Fin 80)
               then \<lparr>score = 2, invalid = False\<rparr>
             else if (js_ge s (Fin 130) \<and> js_le s (Fin 139)) \<or> (js_ge d (Fin 80) \<and> js_le d (Fin 89))
               then \<lparr>score = 3, invalid = False\<rparr>
             else if js_ge s (Fin 140) \<or> js_ge d (Fin 90) then \<lparr>score = 4, invalid = False\<rparr>
             else \<lparr>score = 0, invalid = False\<rparr>)"

definition ageScore_000 :: "jsval \<Rightarrow> score_result" where
  "ageScore_000 v =
     (case v of
        Num a \<Rightarrow>
          if isInvalid v \<or> jstypeof v \<noteq> ''number'' then \<lparr>score = 0, invalid = True\<rparr>
          else if js_lt a (Fin 40) then \<lparr>score = 1, invalid = False\<rparr>
          else if js_le a (Fin 65) then \<lparr>score = 1, invalid = False\<rparr>
          else if js_gt a (Fin 65) then \<lparr>score = 2, invalid = False\<rparr>
          else \<lparr>score = 0, invalid = False\<rparr>
      | _ \<Rightarrow> \<lparr>score = 0, invalid = True\<rparr>)"




section \<open>The rules of the specification\<close>

text \<open>
  The blood-pressure table as the specification words it, first matching row, on the
  two parsed numbers.
\<close>

definition bp_table :: "jsnum \<Rightarrow> jsnum \<Rightarrow> nat" where
  "bp_table S D =
     (if js_lt S (Fin 120) \<and> js_lt D (Fin 80) then 0
      else if js_le (Fin 120) S \<and> js_le S (Fin 129) \<and> js_lt D (Fin 80) then 1
      else if (js_le (Fin 130) S \<and> js_le S (Fin 139)) \<or> (js_le (Fin 80) D \<and> js_le D (Fin 89)) then 2
      else if js_le (Fin 140) S \<or> js_le (Fin 90) D then 3
      else 0)"

text \<open>The same rows with the scores of part 000.\<close>

definition bp_table_000 :: "jsnum \<Rightarrow> jsnum \<Rightarrow> nat" where
  "bp_table_000 S D =
     (if js_lt S (Fin 120) \<and> js_lt D (Fin 80) then 1
      else if js_le (Fin 120) S \<and> js_le S (Fin 129) \<and> js_lt D (Fin 80) then 2
      else if (js_le (Fin 130) S \<and> js_le S (Fin 139)) \<or> (js_le (Fin 80) D \<and> js_le D (Fin 89)) then 3
      else if js_le (Fin 140) S \<or> js_le (Fin 90) D then 4
      else 0)"

text \<open>"The temperature is present, numeric, and at least 99.6."\<close>

definition fever_reading :: "jsval \<Rightarrow> bool" where
  "fever_reading v = (case v of Num t \<Rightarrow> js_le (binary64 (996 / 10)) t | _ \<Rightarrow> False)"

text \<open>"The total risk score is at least 4."\<close>

definition high_risk_rule :: "patient \<Rightarrow> bool" where
  "high_risk_rule p =
     (4 \<le> score (bpScore (blood_pressure p)) + score (tempScore (temperature p))
            + score (ageScore (age p)))"

text \<open>"Any of the three signals was invalid."\<close>

definition quality_issue :: "patient \<Rightarrow> bool" where
  "quality_issue p =
     (invalid (bpScore (blood_pressure p)) \<or> invalid (tempScore (temperature p))
      \<or> invalid (ageScore (age p)))"

text \<open>The report of a sequence of records: the three routing rules, in input order.\<close>

definition report_of :: "patient list \<Rightarrow> report" where
  "report_of ps =
     \<lparr>high_risk_patients = map patient_id (filter high_risk_rule ps),
      fever_patients = map patient_id (filter (\<lambda>p. fever_reading (temperature p)) ps),
      data_quality_issues = map patient_id (filter quality_issue ps)\<rparr>"

text \<open>The retryable statuses of the specification.\<close>

definition retryable :: "nat \<Rightarrow> bool" where
  "retryable s = (s \<in> set [429, 500, 502, 503])"

text \<open>
  A server that answers the requests for pages \<open>n\<close>, \<open>n + 1\<close>, ... with the given
  pages, each a well-formed envelope under a 2xx status: the records of the page (none
  of them \<open>null\<close>), its \<open>pagination.total\<close> and its \<open>pagination.hasNext\<close>.
\<close>

type_synonym page_content = "patient list \<times> jsval \<times> jsval"

fun serves :: "(nat \<Rightarrow> outcome) \<Rightarrow> nat \<Rightarrow> page_content list \<Rightarrow> bool" where
  "serves srv n [] = True"
| "serves srv n ((ps, tot, hn) # pgs) =
     ((case srv n of
         Rejected \<Rightarrow> False
       | Resp res \<Rightarrow> ok res \<and> body res = Envelope (map Some ps) tot hn)
      \<and> serves srv (n + 1) pgs)"

text \<open>\<open>hasNext\<close> is truthy on every page but the last one, where it is falsy.\<close>

fun last_page_only :: "page_content list \<Rightarrow> bool" where
  "last_page_only [] = False"
| "last_page_only [(ps, tot, hn)] = (\<not> truthy hn)"
| "last_page_only ((ps, tot, hn) # pg # pgs) = (truthy hn \<and> last_page_only (pg # pgs))"

text \<open>The first \<open>pagination.total\<close> that is not \<open>null\<close>; \<open>null\<close> if there is none.\<close>

fun captured_total :: "jsval list \<Rightarrow> jsval" where
  "captured_total [] = Null"
| "captured_total (t # ts) = (if t = Null then captured_total ts else t)"

subsection \<open>Sample records\<close>

text \<open>Stage-1 blood pressure (2), low fever (1), age 50 (1): a total of exactly 4.\<close>

definition patient_at_4 :: patient where
  "patient_at_4 =
     \<lparr>patient_id = Str ''P4'', blood_pressure = Str ''135/85'',
      temperature = Num (Fin 100), age = Num (Fin 50)\<rparr>"

text \<open>The same without the fever: a total of 3.\<close>

definition patient_at_3 :: patient where
  "patient_at_3 =
     \<lparr>patient_id = Str ''P3'', blood_pressure = Str ''135/85'',
      temperature = Num (Fin 98), age = Num (Fin 50)\<rparr>"

text \<open>A record whose three fields are all unusable.\<close>

definition patient_unusable :: patient where
  "patient_unusable =
     \<lparr>patient_id = Str ''P0'', blood_pressure = Null,
      temperature = Str ''abc'', age = Undefined\<rparr>"

text \<open>A blood pressure with no diastolic reading after the separator.\<close>

definition patient_open_bp :: patient where
  "patient_open_bp =
     \<lparr>patient_id = Str ''P1'', blood_pressure = Str ''150/'',
      temperature = Num (Fin 98), age = Num (Fin 30)\<rparr>"




subsection \<open>Sample responses and servers\<close>

definition not_found :: outcome where
  "not_found = Resp \<lparr>status = 404, retry_after = None, body = Malformed\<rparr>"

definition server_error :: outcome where
  "server_error = Resp \<lparr>status = 500, retry_after = None, body = Malformed\<rparr>"

definition empty_page :: outcome where
  "empty_page = Resp \<lparr>status = 200, retry_after = None, body = Envelope [] (Num (Fin 0)) (Bool False)\<rparr>"

definition fresh :: world where
  "fresh = \<lparr>requests = 0, sleeps = []\<rparr>"

text \<open>
  Two pages: the first declares a total of 5 and holds one record, the second declares 99
  and holds one record.
\<close>

definition two_pages :: "nat \<Rightarrow> outcome" where
  "two_pages n =
     (if n = 1 then
        Resp \<lparr>status = 200, retry_after = None,
              body = Envelope [Some patient_at_4] (Num (Fin 5)) (Bool True)\<rparr>
      else if n = 2 then
        Resp \<lparr>status = 200, retry_after = None,
              body = Envelope [Some patient_unusable] (Num (Fin 99)) (Bool False)\<rparr>
      else Rejected)"

text \<open>Two empty pages, the first with a \<open>null\<close> total, the second declaring 5.\<close>

definition null_total_first :: "nat \<Rightarrow> outcome" where
  "null_total_first n =
     (if n = 1 then
        Resp \<lparr>status = 200, retry_after = None, body = Envelope [] Null (Bool True)\<rparr>
      else if n = 2 then
        Resp \<lparr>status = 200, retry_after = None, body = Envelope [] (Num (Fin 5)) (Bool False)\<rparr>
      else Rejected)"

section \<open>Facts about numbers and the scorers\<close>

lemma lit_99_6: "binary64 (996 / 10) = Fin (3504363460047667 / 35184372088832)"
  by code_simp

lemma js_le_Fin: "js_le (Fin a) (Fin b) = (a \<le> b)"
  by (auto simp: js_le_def)

lemma js_ge_Fin: "js_ge (Fin a) (Fin b) = (b \<le> a)"
  by (auto simp: js_ge_def)

lemma js_gt_Fin: "js_gt (Fin a) (Fin b) = (b < a)"
  by (simp add: js_gt_def)

lemma js_ge_le: "js_ge a b = js_le b a"
  by (auto simp: js_ge_def js_le_def)

lemma bpScore_parsed:
  "parseBP bp = Some \<lparr>sys = Some S, dia = Some D\<rparr> \<Longrightarrow>
     bpScore bp = \<lparr>score = bp_table S D, invalid = False\<rparr>"
  by (simp add: bpScore_def bp_table_def js_ge_le)

lemma bp_table_Fin:
  "bp_table (Fin x) (Fin y) =
     (if x < 120 \<and> y < 80 then 0
      else if 120 \<le> x \<and> x \<le> 129 \<and> y < 80 then 1
      else if (130 \<le> x \<and> x \<le> 139) \<or> (80 \<le> y \<and> y \<le> 89) then 2
      else if 140 \<le> x \<or> 90 \<le> y then 3
      else 0)"
  by (simp add: bp_table_def js_le_Fin)

lemma bpScore_invalid_iff:
  "invalid (bpScore (Str s)) =
     (s = [] \<or> element (map Number (split s CHR ''/'')) 0 = Some NaN
      \<or> element (map Number (split s CHR ''/'')) 1 = Some NaN)"
  by (auto simp: bpScore_def parseBP_def isInvalid_def Number_isNaN_def Let_def
      split: option.splits)

lemma bpScore_not_string:
  "jstypeof v \<noteq> ''string'' \<or> v = Str [] \<Longrightarrow> bpScore v = \<lparr>score = 0, invalid = True\<rparr>"
  by (cases v) (auto simp: bpScore_def parseBP_def isInvalid_def)

lemma tempScore_not_number:
  "(jstypeof v \<noteq> ''number'') = (tempScore v = \<lparr>score = 0, invalid = True\<rparr>)"
  by (cases v) (simp_all add: tempScore_def isInvalid_def)

lemma ageScore_not_number:
  "(jstypeof v \<noteq> ''number'') = (ageScore v = \<lparr>score = 0, invalid = True\<rparr>)"
  by (cases v) (simp_all add: ageScore_def isInvalid_def)

lemma ageScore_Fin:
  "ageScore (Num (Fin a)) =
     \<lparr>score = (if a < 40 then 0 else if a \<le> 65 then 1 else 2), invalid = False\<rparr>"
  by (simp add: ageScore_def isInvalid_def js_le_Fin js_ge_Fin js_gt_Fin)

lemma invalid_zero:
  "invalid (bpScore v) \<longrightarrow> score (bpScore v) = 0"
  "invalid (tempScore v) \<longrightarrow> score (tempScore v) = 0"
  "invalid (ageScore v) \<longrightarrow> score (ageScore v) = 0"
  by (auto simp: bpScore_def tempScore_def ageScore_def Let_def
      split: option.splits jsval.splits)

text \<open>The scorers of part 000.\<close>

lemma bpScore_000_parsed:
  "parseBP bp = Some \<lparr>sys = Some S, dia = Some D\<rparr> \<Longrightarrow>
     bpScore_000 bp = \<lparr>score = bp_table_000 S D, invalid = False\<rparr>"
  by (simp add: bpScore_000_def bp_table_000_def js_ge_le)

lemma bp_table_000_Fin:
  "bp_table_000 (Fin x) (Fin y) =
     (if x < 120 \<and> y < 80 then 1
      else if 120 \<le> x \<and> x \<le> 129 \<and> y < 80 then 2
      else if (130 \<le> x \<and> x \<le> 139) \<or> (80 \<le> y \<and> y \<le> 89) then 3
      else if 140 \<le> x \<or> 90 \<le> y then 4
      else 0)"
  by (simp add: bp_table_000_def js_le_Fin)

lemma ageScore_000_not_number:
  "(jstypeof v \<noteq> ''number'') = (ageScore_000 v = \<lparr>score = 0, invalid = True\<rparr>)"
  by (cases v) (simp_all add: ageScore_000_def isInvalid_def)

lemma ageScore_000_Fin:
  "ageScore_000 (Num (Fin a)) = \<lparr>score = (if a \<le> 65 then 1 else 2), invalid = False\<rparr>"
  by (simp add: ageScore_000_def isInvalid_def js_le_Fin js_gt_Fin)

lemma ageScore_000_inf:
  "ageScore_000 (Num NegInf) = \<lparr>score = 1, invalid = False\<rparr>"
  "ageScore_000 (Num PosInf) = \<lparr>score = 2, invalid = False\<rparr>"
  by (simp_all add: ageScore_000_def isInvalid_def js_le_def js_gt_def)

section \<open>Facts about the classification loop\<close>

lemma fever_test:
  "(jstypeof v = ''number'' \<and> (case v of Num t \<Rightarrow> js_ge t (binary64 (996 / 10)) | _ \<Rightarrow> False))
     = fever_reading v"
  by (cases v) (simp_all add: fever_reading_def js_ge_le)

lemma process_patient_lists:
  "high_risk_patients (process_patient p st) =
     (if high_risk_rule p then high_risk_patients st @ [patient_id p] else high_risk_patients st)"
  "fever_patients (process_patient p st) =
     (if fever_reading (temperature p) then fever_patients st @ [patient_id p] else fever_patients st)"
  "data_quality_issues (process_patient p st) =
     (if quality_issue p then data_quality_issues st @ [patient_id p] else data_quality_issues st)"
  by (simp_all add: process_patient_def Let_def fever_test high_risk_rule_def quality_issue_def)

lemma process_patient_vars:
  "processedCount (process_patient p st) = processedCount st + 1"
  "totalExpected (process_patient p st) = totalExpected st"
  "hasNext (process_patient p st) = hasNext st"
  "page (process_patient p st) = page st"
  by (simp_all add: process_patient_def Let_def)

lemma process_data_records:
  "\<exists>st'. process_data (map Some ps) st = Inr st'
     \<and> high_risk_patients st' = high_risk_patients st @ map patient_id (filter high_risk_rule ps)
     \<and> fever_patients st' =
         fever_patients st @ map patient_id (filter (\<lambda>p. fever_reading (temperature p)) ps)
     \<and> data_quality_issues st' = data_quality_issues st @ map patient_id (filter quality_issue ps)
     \<and> processedCount st' = processedCount st + length ps
     \<and> totalExpected st' = totalExpected st \<and> hasNext st' = hasNext st \<and> page st' = page st"
proof (induction ps arbitrary: st)
  case Nil
  show ?case by simp
next
  case (Cons p ps)
  from Cons.IH [of "process_patient p st"] show ?case
    by (auto simp: process_patient_lists process_patient_vars)
qed





lemma sample_scores:
  "bpScore (Str ''135/85'') = \<lparr>score = 2, invalid = False\<rparr>"
  "tempScore (Num (Fin 100)) = \<lparr>score = 1, invalid = False\<rparr>"
  "tempScore (Num (Fin 98)) = \<lparr>score = 0, invalid = False\<rparr>"
  "ageScore (Num (Fin 50)) = \<lparr>score = 1, invalid = False\<rparr>"
  "ageScore (Num (Fin 30)) = \<lparr>score = 0, invalid = False\<rparr>"
  "bpScore (Str ''150/'') = \<lparr>score = 3, invalid = False\<rparr>"
  by code_simp+

text \<open>
  What the loop and the scorers guarantee on unusable fields: over any sequence of
  records the loop returns normally, and it appends to the data-quality list, in order,
  the IDs of exactly the records with an invalid signal; a blood pressure that is not a
  string or is the empty string, a blood-pressure string whose first or second component
  is not numeric, and a temperature or an age that is not a number, each score 0 with
  the invalid flag.
\<close>

lemma unusable_fields_degrade:
  "(\<exists>st'. process_data (map Some ps) st = Inr st'
      \<and> data_quality_issues st' =
          data_quality_issues st
          @ map patient_id
              (filter (\<lambda>p. invalid (bpScore (blood_pressure p))
                            \<or> invalid (tempScore (temperature p))
                            \<or> invalid (ageScore (age p))) ps))
   \<and> (jstypeof b \<noteq> ''string'' \<or> b = Str [] \<longrightarrow> bpScore b = \<lparr>score = 0, invalid = True\<rparr>)
   \<and> (element (map Number (split s CHR ''/'')) 0 = Some NaN
        \<or> element (map Number (split s CHR ''/'')) 1 = Some NaN \<longrightarrow>
        bpScore (Str s) = \<lparr>score = 0, invalid = True\<rparr>)
   \<and> (jstypeof t \<noteq> ''number'' \<longrightarrow> tempScore t = \<lparr>score = 0, invalid = True\<rparr>)
   \<and> (jstypeof a \<noteq> ''number'' \<longrightarrow> ageScore a = \<lparr>score = 0, invalid = True\<rparr>)"
proof -
  have rule: "quality_issue =
      (\<lambda>p. invalid (bpScore (blood_pressure p)) \<or> invalid (tempScore (temperature p))
            \<or> invalid (ageScore (age p)))"
    by (rule ext) (simp add: quality_issue_def)
  from process_data_records [of ps st] have loop: "\<exists>st'. process_data (map Some ps) st = Inr st'
      \<and> data_quality_issues st' =
          data_quality_issues st @ map patient_id (filter quality_issue ps)"
    by blast
  have comp: "element (map Number (split s CHR ''/'')) 0 = Some NaN
        \<or> element (map Number (split s CHR ''/'')) 1 = Some NaN \<longrightarrow>
        bpScore (Str s) = \<lparr>score = 0, invalid = True\<rparr>"
  proof
    assume "element (map Number (split s CHR ''/'')) 0 = Some NaN
        \<or> element (map Number (split s CHR ''/'')) 1 = Some NaN"
    then have "invalid (bpScore (Str s))" by (simp add: bpScore_invalid_iff)
    with invalid_zero(1) [of "Str s"] show "bpScore (Str s) = \<lparr>score = 0, invalid = True\<rparr>"
      by simp
  qed
  from loop comp bpScore_not_string [of b] tempScore_not_number [of t] ageScore_not_number [of a]
  show ?thesis unfolding rule by blast
qed

section \<open>The claims about scoring and routing\<close>

text \<open>
  Claim C1. Over any sequence of patient records the loop appends, in order, the IDs of
  exactly the records whose total risk is at least 4, the total being the sum of the
  blood-pressure, temperature and age scores; for one record, its ID is appended if and
  only if that sum is at least 4. A signal that is flagged invalid has score 0, so it
  adds nothing to the sum.
\<close>

theorem high_risk_iff_total_at_least_4:
  "(\<exists>st'. process_data (map Some ps) st = Inr st'
      \<and> high_risk_patients st' =
          high_risk_patients st
          @ map patient_id
              (filter (\<lambda>p. 4 \<le> score (bpScore (blood_pressure p))
                               + score (tempScore (temperature p))
                               + score (ageScore (age p))) ps))
   \<and> high_risk_patients (process_patient p st) =
       (if 4 \<le> score (bpScore (blood_pressure p)) + score (tempScore (temperature p))
                + score (ageScore (age p))
        then high_risk_patients st @ [patient_id p] else high_risk_patients st)
   \<and> (invalid (bpScore b) \<longrightarrow> score (bpScore b) = 0)
   \<and> (invalid (tempScore t) \<longrightarrow> score (tempScore t) = 0)
   \<and> (invalid (ageScore a) \<longrightarrow> score (ageScore a) = 0)"
proof -
  have rule: "high_risk_rule =
      (\<lambda>p. 4 \<le> score (bpScore (blood_pressure p)) + score (tempScore (temperature p))
                  + score (ageScore (age p)))"
    by (rule ext) (simp add: high_risk_rule_def)
  from process_data_records [of ps st] have loop: "\<exists>st'. process_data (map Some ps) st = Inr st'
      \<and> high_risk_patients st' =
          high_risk_patients st @ map patient_id (filter high_risk_rule ps)"
    by blast
  have one: "high_risk_patients (process_patient p st) =
       (if high_risk_rule p then high_risk_patients st @ [patient_id p] else high_risk_patients st)"
    by (rule process_patient_lists)
  from loop one invalid_zero show ?thesis
    unfolding rule by blast
qed

theorem high_risk_iff_total_at_least_4_witness:
  "(\<exists>st'. process_data [Some patient_at_4, Some patient_at_3] initial_state = Inr st'
      \<and> high_risk_patients st' = [Str ''P4''])
   \<and> invalid (bpScore Null) \<and> score (bpScore Null) = 0
   \<and> invalid (tempScore Null) \<and> score (tempScore Null) = 0
   \<and> invalid (ageScore Null) \<and> score (ageScore Null) = 0"
proof -
  have inv: "invalid (bpScore Null)" "invalid (tempScore Null)" "invalid (ageScore Null)"
    by (simp_all add: bpScore_def parseBP_def tempScore_def ageScore_def)
  from high_risk_iff_total_at_least_4
         [of "[patient_at_4, patient_at_3]" initial_state patient_at_4 Null Null Null] inv
  show ?thesis
    by (simp add: patient_at_4_def patient_at_3_def initial_state_def sample_scores)
qed

text \<open>
  Claim C2, as amended. When the blood-pressure value parses into two numbers \<open>S\<close> and
  \<open>D\<close>, the score is the table's value at \<open>(S, D)\<close> and nothing else of the input
  matters. In \<open>index.js\<close> and part 001 the rows score 0, 1, 2, 3 and any other
  combination 0, and the seven boundary strings score as the claim states; in part 000
  the same rows score 1, 2, 3, 4 and any other combination 0, so that the seven strings
  score 1, 2, 2, 3, 3, 4, 4. On finite values each table reads as written, with the
  ordinary order.
\<close>

theorem bpScore_follows_table:
  "(parseBP bp = Some \<lparr>sys = Some S, dia = Some D\<rparr> \<longrightarrow>
      bpScore bp = \<lparr>score = bp_table S D, invalid = False\<rparr>
      \<and> bpScore_000 bp = \<lparr>score = bp_table_000 S D, invalid = False\<rparr>)
   \<and> bp_table (Fin x) (Fin y) =
       (if x < 120 \<and> y < 80 then 0
        else if 120 \<le> x \<and> x \<le> 129 \<and> y < 80 then 1
        else if (130 \<le> x \<and> x \<le> 139) \<or> (80 \<le> y \<and> y \<le> 89) then 2
        else if 140 \<le> x \<or> 90 \<le> y then 3
        else 0)
   \<and> bp_table_000 (Fin x) (Fin y) =
       (if x < 120 \<and> y < 80 then 1
        else if 120 \<le> x \<and> x \<le> 129 \<and> y < 80 then 2
        else if (130 \<le> x \<and> x \<le> 139) \<or> (80 \<le> y \<and> y \<le> 89) then 3
        else if 140 \<le> x \<or> 90 \<le> y then 4
        else 0)
   \<and> bpScore (Str ''119/79'') = \<lparr>score = 0, invalid = False\<rparr>
   \<and> bpScore (Str ''120/79'') = \<lparr>score = 1, invalid = False\<rparr>
   \<and> bpScore (Str ''129/79'') = \<lparr>score = 1, invalid = False\<rparr>
   \<and> bpScore (Str ''130/79'') = \<lparr>score = 2, invalid = False\<rparr>
   \<and> bpScore (Str ''139/89'') = \<lparr>score = 2, invalid = False\<rparr>
   \<and> bpScore (Str ''140/79'') = \<lparr>score = 3, invalid = False\<rparr>
   \<and> bpScore (Str ''115/90'') = \<lparr>score = 3, invalid = False\<rparr>
   \<and> bpScore_000 (Str ''119/79'') = \<lparr>score = 1, invalid = False\<rparr>
   \<and> bpScore_000 (Str ''120/79'') = \<lparr>score = 2, invalid = False\<rparr>
   \<and> bpScore_000 (Str ''129/79'') = \<lparr>score = 2, invalid = False\<rparr>
   \<and> bpScore_000 (Str ''130/79'') = \<lparr>score = 3, invalid = False\<rparr>
   \<and> bpScore_000 (Str ''139/89'') = \<lparr>score = 3, invalid = False\<rparr>
   \<and> bpScore_000 (Str ''140/79'') = \<lparr>score = 4, invalid = False\<rparr>
   \<and> bpScore_000 (Str ''115/90'') = \<lparr>score = 4, invalid = False\<rparr>"
proof -
  have e1: "bpScore (Str ''119/79'') = \<lparr>score = 0, invalid = False\<rparr>" by code_simp
  have e2: "bpScore (Str ''120/79'') = \<lparr>score = 1, invalid = False\<rparr>" by code_simp
  have e3: "bpScore (Str ''129/79'') = \<lparr>score = 1, invalid = False\<rparr>" by code_simp
  have e4: "bpScore (Str ''130/79'') = \<lparr>score = 2, invalid = False\<rparr>" by code_simp
  have e5: "bpScore (Str ''139/89'') = \<lparr>score = 2, invalid = False\<rparr>" by code_simp
  have e6: "bpScore (Str ''140/79'') = \<lparr>score = 3, invalid = False\<rparr>" by code_simp
  have e7: "bpScore (Str ''115/90'') = \<lparr>score = 3, invalid = False\<rparr>" by code_simp
  have f1: "bpScore_000 (Str ''119/79'') = \<lparr>score = 1, invalid = False\<rparr>" by code_simp
  have f2: "bpScore_000 (Str ''120/79'') = \<lparr>score = 2, invalid = False\<rparr>" by code_simp
  have f3: "bpScore_000 (Str ''129/79'') = \<lparr>score = 2, invalid = False\<rparr>" by code_simp
  have f4: "bpScore_000 (Str ''130/79'') = \<lparr>score = 3, invalid = False\<rparr>" by code_simp
  have f5: "bpScore_000 (Str ''139/89'') = \<lparr>score = 3, invalid = False\<rparr>" by code_simp
  have f6: "bpScore_000 (Str ''140/79'') = \<lparr>score = 4, invalid = False\<rparr>" by code_simp
  have f7: "bpScore_000 (Str ''115/90'') = \<lparr>score = 4, invalid = False\<rparr>" by code_simp
  show ?thesis
    unfolding e1 e2 e3 e4 e5 e6 e7 f1 f2 f3 f4 f5 f6 f7
    using bpScore_parsed [of bp S D] bpScore_000_parsed [of bp S D]
      bp_table_Fin [of x y] bp_table_000_Fin [of x y]
    by blast
qed

theorem bpScore_follows_table_witness:
  "parseBP (Str ''135/85'') = Some \<lparr>sys = Some (Fin 135), dia = Some (Fin 85)\<rparr>
   \<and> bpScore (Str ''135/85'') = \<lparr>score = 2, invalid = False\<rparr>
   \<and> bpScore_000 (Str ''135/85'') = \<lparr>score = 3, invalid = False\<rparr>"
proof -
  have parsed: "parseBP (Str ''135/85'') = Some \<lparr>sys = Some (Fin 135), dia = Some (Fin 85)\<rparr>"
    by code_simp
  from bpScore_follows_table [of "Str ''135/85''" "Fin 135" "Fin 85" 135 85] parsed
  show ?thesis by simp
qed

text \<open>
  Claim C2 as stated fails on part 000: \<open>119/79\<close> parses into 119 and 79 and scores 1
  there, not 0.
\<close>

theorem part_000_scores_normal_pressure_as_1:
  "parseBP (Str ''119/79'') = Some \<lparr>sys = Some (Fin 119), dia = Some (Fin 79)\<rparr>
   \<and> bpScore_000 (Str ''119/79'') = \<lparr>score = 1, invalid = False\<rparr>"
proof -
  have a: "parseBP (Str ''119/79'') = Some \<lparr>sys = Some (Fin 119), dia = Some (Fin 79)\<rparr>"
    by code_simp
  have b: "bpScore_000 (Str ''119/79'') = \<lparr>score = 1, invalid = False\<rparr>"
    by code_simp
  from a b show ?thesis by blast
qed

text \<open>
  Claim C5, at inputs where the code departs from it. A string with no separator is
  parsed with an undefined diastolic value, which \<open>Number.isNaN\<close> does not reject; an
  empty component is read as 0; components after the second are dropped. Each of these
  strings gets a score without the invalid flag.
\<close>

theorem parseBP_accepts_incomplete_strings:
  "parseBP (Str ''150'') = Some \<lparr>sys = Some (Fin 150), dia = None\<rparr>
   \<and> bpScore (Str ''150'') = \<lparr>score = 3, invalid = False\<rparr>
   \<and> bpScore (Str ''/90'') = \<lparr>score = 3, invalid = False\<rparr>
   \<and> bpScore (Str ''120/80/90'') = \<lparr>score = 2, invalid = False\<rparr>"
proof -
  have a: "parseBP (Str ''150'') = Some \<lparr>sys = Some (Fin 150), dia = None\<rparr>" by code_simp
  have b: "bpScore (Str ''150'') = \<lparr>score = 3, invalid = False\<rparr>" by code_simp
  have c: "bpScore (Str ''/90'') = \<lparr>score = 3, invalid = False\<rparr>" by code_simp
  have d: "bpScore (Str ''120/80/90'') = \<lparr>score = 2, invalid = False\<rparr>" by code_simp
  from a b c d show ?thesis by blast
qed

text \<open>
  Claim C6, as amended. In every variant the age score is 0 with the invalid flag exactly
  when the value is not a number (in particular when it is missing, null or the empty
  string), a number from 40 to 65 scores 1 and a number above 65 scores 2, also for the
  infinities. A number below 40 scores 0 in \<open>index.js\<close> and part 001, and 1 in part
  000: 39, 40, 65, 66 score 0, 1, 1, 2 in the former and 1, 1, 1, 2 in the latter.
\<close>

theorem ageScore_follows_table:
  "(jstypeof v \<noteq> ''number'') = (ageScore v = \<lparr>score = 0, invalid = True\<rparr>)
   \<and> ageScore Undefined = \<lparr>score = 0, invalid = True\<rparr>
   \<and> ageScore Null = \<lparr>score = 0, invalid = True\<rparr>
   \<and> ageScore (Str []) = \<lparr>score = 0, invalid = True\<rparr>
   \<and> ageScore (Num (Fin a)) =
       \<lparr>score = (if a < 40 then 0 else if a \<le> 65 then 1 else 2), invalid = False\<rparr>
   \<and> ageScore (Num NegInf) = \<lparr>score = 0, invalid = False\<rparr>
   \<and> ageScore (Num PosInf) = \<lparr>score = 2, invalid = False\<rparr>
   \<and> ageScore (Num (Fin 39)) = \<lparr>score = 0, invalid = False\<rparr>
   \<and> ageScore (Num (Fin 40)) = \<lparr>score = 1, invalid = False\<rparr>
   \<and> ageScore (Num (Fin 65)) = \<lparr>score = 1, invalid = False\<rparr>
   \<and> ageScore (Num (Fin 66)) = \<lparr>score = 2, invalid = False\<rparr>
   \<and> (jstypeof v \<noteq> ''number'') = (ageScore_000 v = \<lparr>score = 0, invalid = True\<rparr>)
   \<and> ageScore_000 Undefined = \<lparr>score = 0, invalid = True\<rparr>
   \<and> ageScore_000 Null = \<lparr>score = 0, invalid = True\<rparr>
   \<and> ageScore_000 (Str []) = \<lparr>score = 0, invalid = True\<rparr>
   \<and> ageScore_000 (Num (Fin a)) =
       \<lparr>score = (if a < 40 then 1 else if a \<le> 65 then 1 else 2), invalid = False\<rparr>
   \<and> ageScore_000 (Num NegInf) = \<lparr>score = 1, invalid = False\<rparr>
   \<and> ageScore_000 (Num PosInf) = \<lparr>score = 2, invalid = False\<rparr>
   \<and> ageScore_000 (Num (Fin 39)) = \<lparr>score = 1, invalid = False\<rparr>
   \<and> ageScore_000 (Num (Fin 40)) = \<lparr>score = 1, invalid = False\<rparr>
   \<and> ageScore_000 (Num (Fin 65)) = \<lparr>score = 1, invalid = False\<rparr>
   \<and> ageScore_000 (Num (Fin 66)) = \<lparr>score = 2, invalid = False\<rparr>"
proof -
  have inf: "ageScore (Num NegInf) = \<lparr>score = 0, invalid = False\<rparr>"
    "ageScore (Num PosInf) = \<lparr>score = 2, invalid = False\<rparr>"
    by (simp_all add: ageScore_def isInvalid_def js_le_def js_ge_def js_gt_def)
  have missing: "ageScore Undefined = \<lparr>score = 0, invalid = True\<rparr>"
    "ageScore Null = \<lparr>score = 0, invalid = True\<rparr>"
    "ageScore (Str []) = \<lparr>score = 0, invalid = True\<rparr>"
    by (simp_all add: ageScore_def)
  have missing_000: "ageScore_000 Undefined = \<lparr>score = 0, invalid = True\<rparr>"
    "ageScore_000 Null = \<lparr>score = 0, invalid = True\<rparr>"
    "ageScore_000 (Str []) = \<lparr>score = 0, invalid = True\<rparr>"
    by (simp_all add: ageScore_000_def)
  show ?thesis
    using ageScore_not_number [of v] ageScore_000_not_number [of v] inf missing missing_000
    by (simp add: ageScore_Fin ageScore_000_Fin ageScore_000_inf)
qed

text \<open>Claim C6 as stated fails on part 000: the age 39 scores 1 there, not 0.\<close>

theorem part_000_scores_age_39_as_1:
  "ageScore_000 (Num (Fin 39)) = \<lparr>score = 1, invalid = False\<rparr>"
  by (simp add: ageScore_000_Fin)




text \<open>
  Claim C10. A temperature that is the number NaN scores 0 without the invalid flag; the
  record's ID is not added to the fever list, and it is added to the data-quality list
  only on account of its blood pressure or its age.
\<close>

theorem nan_temperature_scores_zero_unflagged:
  "tempScore (Num NaN) = \<lparr>score = 0, invalid = False\<rparr>
   \<and> fever_patients (process_patient (p\<lparr>temperature := Num NaN\<rparr>) st) = fever_patients st
   \<and> data_quality_issues (process_patient (p\<lparr>temperature := Num NaN\<rparr>) st) =
       (if invalid (bpScore (blood_pressure p)) \<or> invalid (ageScore (age p))
        then data_quality_issues st @ [patient_id p] else data_quality_issues st)"
proof -
  have nan: "tempScore (Num NaN) = \<lparr>score = 0, invalid = False\<rparr>"
    by (simp add: tempScore_def isInvalid_def js_le_def js_ge_def)
  have cold: "\<not> fever_reading (Num NaN)"
    by (simp add: fever_reading_def js_le_def)
  show ?thesis
    using nan cold by (simp add: process_patient_lists quality_issue_def)
qed

text \<open>
  Claim C8, at an input where the code departs from it. Classifying the record raises
  nothing, but its blood pressure \<open>150/\<close> has no diastolic half: the empty half is read
  as 0, the score is 3 with no invalid flag, and the record is not routed to the
  data-quality list.
\<close>

theorem open_blood_pressure_not_flagged:
  "bpScore (blood_pressure patient_open_bp) = \<lparr>score = 3, invalid = False\<rparr>
   \<and> (\<exists>st'. process_data [Some patient_open_bp] initial_state = Inr st'
          \<and> data_quality_issues st' = [])"
  by (simp add: process_patient_lists quality_issue_def patient_open_bp_def sample_scores
      initial_state_def)

section \<open>Facts about the retrying fetch and the pagination loop\<close>

lemma attempt_once_retryable:
  "retryable (status res) \<Longrightarrow>
   attempt_once (Resp res) retries attempt =
     (if retries < attempt then Done (Inl (RetriesExhausted retries (status res)))
      else Again (case retry_after res of
                    None \<Rightarrow> Backoff (backoff attempt)
                  | Some h \<Rightarrow> if h \<noteq> [] then Hinted (Number h) else Backoff (backoff attempt)))"
  by (auto simp: attempt_once_def retryable_def ok_def thrown_def)

lemma retries_exhausted:
  "attempt \<le> retries + 1 \<Longrightarrow>
   (\<And>k. k \<le> retries + 1 - attempt \<Longrightarrow> net (requests w + k) = Resp (r k) \<and> retryable (status (r k))) \<Longrightarrow>
   \<exists>ds. fetchWithRetry net retries attempt w =
          (Inl (RetriesExhausted retries (status (r (retries + 1 - attempt)))),
           \<lparr>requests = requests w + (retries + 2 - attempt), sleeps = sleeps w @ ds\<rparr>)
        \<and> length ds = retries + 1 - attempt"
proof (induction "retries + 1 - attempt" arbitrary: attempt w r)
  case 0
  then have last: "retries < attempt" and here: "net (requests w) = Resp (r 0)" "retryable (status (r 0))"
    using "0.prems"(2) [of 0] by auto
  from 0 last have a: "attempt = retries + 1" by simp
  show ?case
    using here last a
    by (subst fetchWithRetry.simps) (simp add: attempt_once_retryable)
next
  case (Suc n)
  then have le: "attempt \<le> retries" by simp
  from Suc.prems(2) [of 0] have here: "net (requests w) = Resp (r 0)" "retryable (status (r 0))"
    by auto
  obtain d where d: "attempt_once (Resp (r 0)) retries attempt = Again d"
    using here le by (simp add: attempt_once_retryable)
  let ?w = "w\<lparr>requests := requests w + 1, sleeps := sleeps w @ [d]\<rparr>"
  have n: "n = retries + 1 - (attempt + 1)" using Suc.hyps(2) by simp
  have rest: "net (requests ?w + k) = Resp (r (Suc k)) \<and> retryable (status (r (Suc k)))"
    if "k \<le> retries + 1 - (attempt + 1)" for k
  proof -
    from that le have "Suc k \<le> retries + 1 - attempt" by simp
    from Suc.prems(2) [OF this] show ?thesis by simp
  qed
  from Suc.hyps(1) [OF n _ rest] le
  obtain ds where ds: "fetchWithRetry net retries (attempt + 1) ?w =
       (Inl (RetriesExhausted retries (status (r (Suc (retries + 1 - (attempt + 1)))))),
        \<lparr>requests = requests ?w + (retries + 2 - (attempt + 1)), sleeps = sleeps ?w @ ds\<rparr>)"
      and len: "length ds = retries + 1 - (attempt + 1)"
    by auto
  have step: "fetchWithRetry net retries attempt w = fetchWithRetry net retries (attempt + 1) ?w"
    using here d by (subst fetchWithRetry.simps) simp
  show ?case
    using step ds len le by (intro exI [of _ "d # ds"]) (simp add: Suc_diff_le)
qed

lemma run_loop_pages:
  "serves srv (page st) pgs \<Longrightarrow> last_page_only pgs \<Longrightarrow> truthy (hasNext st) \<Longrightarrow>
   \<exists>st'. run_loop srv st = Some (Inr st')
     \<and> high_risk_patients st' =
         high_risk_patients st @ map patient_id (filter high_risk_rule (concat (map fst pgs)))
     \<and> fever_patients st' =
         fever_patients st
         @ map patient_id (filter (\<lambda>p. fever_reading (temperature p)) (concat (map fst pgs)))
     \<and> data_quality_issues st' =
         data_quality_issues st @ map patient_id (filter quality_issue (concat (map fst pgs)))
     \<and> processedCount st' = processedCount st + length (concat (map fst pgs))
     \<and> totalExpected st' =
         (if totalExpected st = Null then captured_total (map (fst \<circ> snd) pgs)
          else totalExpected st)"
proof (induction pgs arbitrary: st)
  case Nil
  then show ?case by simp
next
  case (Cons pg pgs)
  obtain ps tot hn where pg: "pg = (ps, tot, hn)"
    by (cases pg)
  from Cons.prems(1) pg obtain res where res: "srv (page st) = Resp res" "ok res"
      "body res = Envelope (map Some ps) tot hn"
    and more: "serves srv (page st + 1) pgs"
    by (auto split: outcome.splits)
  define st0 where "st0 = (if totalExpected st = Null then st\<lparr>totalExpected := tot\<rparr> else st)"
  from process_data_records [of ps st0] obtain st1 where
    st1: "process_data (map Some ps) st0 = Inr st1"
    and hr: "high_risk_patients st1 = high_risk_patients st0 @ map patient_id (filter high_risk_rule ps)"
    and fv: "fever_patients st1 =
         fever_patients st0 @ map patient_id (filter (\<lambda>p. fever_reading (temperature p)) ps)"
    and dq: "data_quality_issues st1 =
         data_quality_issues st0 @ map patient_id (filter quality_issue ps)"
    and pc: "processedCount st1 = processedCount st0 + length ps"
    and te: "totalExpected st1 = totalExpected st0"
    and pgn: "page st1 = page st0"
    by blast
  define st2 where "st2 = st1\<lparr>hasNext := hn, page := page st1 + 1\<rparr>"
  have step: "run_loop srv st = run_loop srv st2"
    using Cons.prems(3) res st1
    by (subst run_loop.simps) (simp add: st0_def st2_def)
  have st0: "high_risk_patients st0 = high_risk_patients st"
    "fever_patients st0 = fever_patients st"
    "data_quality_issues st0 = data_quality_issues st"
    "processedCount st0 = processedCount st" "page st0 = page st"
    "totalExpected st0 = (if totalExpected st = Null then tot else totalExpected st)"
    by (simp_all add: st0_def)
  have st2: "high_risk_patients st2 = high_risk_patients st1"
    "fever_patients st2 = fever_patients st1"
    "data_quality_issues st2 = data_quality_issues st1"
    "processedCount st2 = processedCount st1" "page st2 = page st + 1"
    "totalExpected st2 = totalExpected st1" "hasNext st2 = hn"
    by (simp_all add: st2_def pgn st0)
  show ?case
  proof (cases pgs)
    case Nil
    with Cons.prems(2) pg have "\<not> truthy hn" by simp
    then have "run_loop srv st2 = Some (Inr st2)"
      by (subst run_loop.simps) (simp add: st2)
    with step show ?thesis
      by (simp add: pg Nil st2 st0 hr fv dq pc te)
  next
    case (Cons pg' pgs')
    with Cons.prems(2) pg have hn: "truthy hn" and rest: "last_page_only pgs"
      by simp_all
    from more have "serves srv (page st2) pgs" by (simp add: st2)
    from Cons.IH [OF this rest] hn obtain st' where
      "run_loop srv st2 = Some (Inr st')"
      "high_risk_patients st' =
         high_risk_patients st2 @ map patient_id (filter high_risk_rule (concat (map fst pgs)))"
      "fever_patients st' =
         fever_patients st2
         @ map patient_id (filter (\<lambda>p. fever_reading (temperature p)) (concat (map fst pgs)))"
      "data_quality_issues st' =
         data_quality_issues st2 @ map patient_id (filter quality_issue (concat (map fst pgs)))"
      "processedCount st' = processedCount st2 + length (concat (map fst pgs))"
      "totalExpected st' =
         (if totalExpected st2 = Null then captured_total (map (fst \<circ> snd) pgs)
          else totalExpected st2)"
      by (auto simp: st2)
    with step show ?thesis
      by (simp add: pg st2 st0 hr fv dq pc te)
  qed
qed

lemma run_pages:
  "serves srv 1 pgs \<Longrightarrow> last_page_only pgs \<Longrightarrow>
   run srv =
     Some (Inr \<lparr>warning =
                  (if Num (Fin (of_nat (length (concat (map fst pgs)))))
                      \<noteq> captured_total (map (fst \<circ> snd) pgs)
                   then Some (length (concat (map fst pgs)), captured_total (map (fst \<circ> snd) pgs))
                   else None),
                payload = report_of (concat (map fst pgs))\<rparr>)"
proof -
  assume "serves srv 1 pgs" "last_page_only pgs"
  with run_loop_pages [of srv initial_state pgs] obtain st' where
    "run_loop srv initial_state = Some (Inr st')"
    "high_risk_patients st' = map patient_id (filter high_risk_rule (concat (map fst pgs)))"
    "fever_patients st' =
       map patient_id (filter (\<lambda>p. fever_reading (temperature p)) (concat (map fst pgs)))"
    "data_quality_issues st' = map patient_id (filter quality_issue (concat (map fst pgs)))"
    "processedCount st' = length (concat (map fst pgs))"
    "totalExpected st' = captured_total (map (fst \<circ> snd) pgs)"
    by (auto simp: initial_state_def)
  then show ?thesis
    by (simp add: run_def finish_def report_of_def)
qed

section \<open>The claims about the retrying fetch and the pagination\<close>

text \<open>
  Claim C3, at an input where the code departs from it. The error thrown for a status
  that is neither 2xx nor retryable is thrown inside the \<open>try\<close> block, so the \<open>catch\<close>
  block takes it for a network error: with the default budget a 404 is requested six
  times before the error surfaces, and a 404 followed by a 200 ends in success after two
  requests.
\<close>

theorem non_retryable_status_is_retried:
  "fetchWithRetry (\<lambda>k. not_found) 5 1 fresh =
     (Inl (NonRetryable 404),
      \<lparr>requests = 6,
       sleeps = [BackoffPlain 1000, BackoffPlain 2000, BackoffPlain 4000, BackoffPlain 8000,
                 BackoffPlain 10000]\<rparr>)
   \<and> fetchWithRetry (\<lambda>k. if k = 0 then not_found else empty_page) 5 1 fresh =
       (Inr \<lparr>status = 200, retry_after = None, body = Envelope [] (Num (Fin 0)) (Bool False)\<rparr>,
        \<lparr>requests = 2, sleeps = [BackoffPlain 1000]\<rparr>)"
  by (simp add: fetchWithRetry.simps attempt_once_def thrown_def ok_def not_found_def
      empty_page_def fresh_def backoff_def)

text \<open>
  Claim C4. With the default budget of 5 retries, starting at attempt 1, six retryable
  statuses in a row end the call with the retries-exhausted error that carries the sixth
  status; exactly six requests have been made, with five sleeps between them, whatever
  the network would have answered afterwards.
\<close>

theorem six_retryable_statuses_exhaust_budget:
  assumes "\<And>k. k < 6 \<Longrightarrow>
             net (requests w + k) = Resp (r k) \<and> status (r k) \<in> {429, 500, 502, 503}"
  shows "\<exists>ds. fetchWithRetry net 5 1 w =
            (Inl (RetriesExhausted 5 (status (r 5))),
             \<lparr>requests = requests w + 6, sleeps = sleeps w @ ds\<rparr>)
          \<and> length ds = 5"
proof -
  have "net (requests w + k) = Resp (r k) \<and> retryable (status (r k))" if "k \<le> 5 + 1 - 1" for k
    using assms [of k] that by (simp add: retryable_def)
  from retries_exhausted [of 1 5 net w r, OF _ this] show ?thesis
    by simp
qed

theorem six_retryable_statuses_exhaust_budget_witness:
  "\<exists>ds. fetchWithRetry (\<lambda>k. server_error) 5 1 fresh =
           (Inl (RetriesExhausted 5 500), \<lparr>requests = 6, sleeps = ds\<rparr>)
         \<and> length ds = 5"
  using six_retryable_statuses_exhaust_budget
          [of "\<lambda>k. server_error" fresh
              "\<lambda>k. \<lparr>status = 500, retry_after = None, body = Malformed\<rparr>"]
  by (simp add: server_error_def fresh_def)

text \<open>
  Claim C9, as amended. When the server delivers its pages and flags the last one, the
  run returns: its payload is the report of all the records of all the pages, and the
  warning is printed exactly when the number of records processed differs from the
  captured total, with no other effect. The captured total is the first
  \<open>pagination.total\<close> that is not \<open>null\<close>: the first page's whenever that is not
  \<open>null\<close>.
\<close>

theorem mismatch_only_warns:
  "(serves srv 1 pgs \<and> last_page_only pgs \<longrightarrow>
      run srv =
        Some (Inr \<lparr>warning =
                     (if Num (Fin (of_nat (length (concat (map fst pgs)))))
                         \<noteq> captured_total (map (fst \<circ> snd) pgs)
                      then Some (length (concat (map fst pgs)),
                                 captured_total (map (fst \<circ> snd) pgs))
                      else None),
                   payload = report_of (concat (map fst pgs))\<rparr>))
   \<and> (tot \<noteq> Null \<longrightarrow> captured_total (tot # ts) = tot)
   \<and> captured_total (Null # ts) = captured_total ts"
  using run_pages [of srv pgs] by simp

theorem mismatch_only_warns_witness:
  "serves two_pages 1
     [([patient_at_4], Num (Fin 5), Bool True), ([patient_unusable], Num (Fin 99), Bool False)]
   \<and> last_page_only
       [([patient_at_4], Num (Fin 5), Bool True), ([patient_unusable], Num (Fin 99), Bool False)]
   \<and> run two_pages =
       Some (Inr \<lparr>warning = Some (2, Num (Fin 5)),
                  payload = \<lparr>high_risk_patients = [Str ''P4''], fever_patients = [Str ''P4''],
                             data_quality_issues = [Str ''P0'']\<rparr>\<rparr>)
   \<and> Num (Fin 5) \<noteq> Null \<and> captured_total [Num (Fin 5), Num (Fin 99)] = Num (Fin 5)"
proof -
  have served: "serves two_pages 1
     [([patient_at_4], Num (Fin 5), Bool True), ([patient_unusable], Num (Fin 99), Bool False)]"
    by (simp add: two_pages_def ok_def)
  have hot: "fever_reading (Num (Fin 100))"
    unfolding fever_reading_def lit_99_6 by (simp add: js_le_Fin)
  have unusable: "invalid (bpScore Null)" "score (bpScore Null) = 0"
    "tempScore (Str ''abc'') = \<lparr>score = 0, invalid = True\<rparr>"
    "ageScore Undefined = \<lparr>score = 0, invalid = True\<rparr>"
    by (simp_all add: bpScore_def parseBP_def tempScore_def ageScore_def)
  have "\<not> fever_reading (Str ''abc'')"
    by (simp add: fever_reading_def)
  with mismatch_only_warns
         [of two_pages
             "[([patient_at_4], Num (Fin 5), Bool True), ([patient_unusable], Num (Fin 99), Bool False)]"
             "Num (Fin 5)" "[Num (Fin 99)]"]
       served hot unusable
  show ?thesis
    by (simp add: report_of_def high_risk_rule_def quality_issue_def patient_at_4_def
        patient_unusable_def sample_scores)
qed

text \<open>
  Claim C9 as stated fails when the first page's total is \<open>null\<close>: the total shown in
  the warning is then the second page's.
\<close>

theorem total_taken_from_second_page:
  "null_total_first 1 =
     Resp \<lparr>status = 200, retry_after = None, body = Envelope [] Null (Bool True)\<rparr>
   \<and> run null_total_first =
       Some (Inr \<lparr>warning = Some (0, Num (Fin 5)),
                  payload = \<lparr>high_risk_patients = [], fever_patients = [],
                             data_quality_issues = []\<rparr>\<rparr>)"
proof -
  have "serves null_total_first 1 [([], Null, Bool True), ([], Num (Fin 5), Bool False)]"
    by (simp add: null_total_first_def ok_def)
  from run_pages [OF this] show ?thesis
    by (simp add: report_of_def null_total_first_def)
qed

end
